theory Spec2Isabelle
  imports Main "HOL-Library.AList"
begin

section \<open>Python strings\<close>

text \<open>
  A Python \<open>str\<close> is a sequence of code points and \<open>len\<close> counts code points. The
  model takes \<^typ>\<open>string\<close> with a \<^typ>\<open>char\<close> read as the code point of the same
  number, so it covers the strings over the code points 0 to 255. In that range the
  built-in methods used by the program are given by small tables:
  \<^item> \<open>str.isdigit\<close> holds for 0x30 to 0x39 and for the superscript digits 0xB2, 0xB3, 0xB9;
  \<^item> \<open>str.isspace\<close> holds for 0x09 to 0x0D, 0x1C to 0x20, 0x85 and 0xA0;
  \<^item> \<open>str.lower\<close> adds 0x20 to 0x41..0x5A and to 0xC0..0xDE except 0xD7, one code point
    for one code point;
  \<^item> the regular expression class \<open>\d\<close> holds for 0x30 to 0x39 only.
\<close>

definition code :: "char \<Rightarrow> nat" where
  "code c = of_char c"

definition in_range :: "nat \<Rightarrow> nat \<Rightarrow> char \<Rightarrow> bool" where
  "in_range lo hi c = (lo \<le> code c \<and> code c \<le> hi)"

definition ascii_digit :: "char \<Rightarrow> bool" where
  "ascii_digit c = in_range 48 57 c"

definition py_isdigit_char :: "char \<Rightarrow> bool" where
  "py_isdigit_char c = (ascii_digit c \<or> code c = 178 \<or> code c = 179 \<or> code c = 185)"

definition py_isdigit :: "string \<Rightarrow> bool" where
  "py_isdigit s = (s \<noteq> [] \<and> list_all py_isdigit_char s)"

definition py_isspace_char :: "char \<Rightarrow> bool" where
  "py_isspace_char c = (in_range 9 13 c \<or> in_range 28 32 c \<or> code c = 133 \<or> code c = 160)"

definition py_lower_char :: "char \<Rightarrow> char" where
  "py_lower_char c =
     (if in_range 65 90 c \<or> (in_range 192 222 c \<and> code c \<noteq> 215)
      then char_of (code c + 32) else c)"

definition py_lower :: "string \<Rightarrow> string" where
  "py_lower s = map py_lower_char s"

definition py_strip :: "string \<Rightarrow> string" where
  "py_strip s = rev (dropWhile py_isspace_char (rev (dropWhile py_isspace_char s)))"

text \<open>\<open>s.split()\<close>: the maximal runs of non-whitespace characters, left to right.\<close>

fun py_split_from :: "string \<Rightarrow> string \<Rightarrow> string list" where
  "py_split_from cur [] = (if cur = [] then [] else [cur])"
| "py_split_from cur (c # cs) =
     (if py_isspace_char c
      then (if cur = [] then py_split_from [] cs else cur # py_split_from [] cs)
      else py_split_from (cur @ [c]) cs)"

definition py_split :: "string \<Rightarrow> string list" where
  "py_split s = py_split_from [] s"

text \<open>\<open>sep.join(xs)\<close>.\<close>

fun py_join :: "string \<Rightarrow> string list \<Rightarrow> string" where
  "py_join sep [] = []"
| "py_join sep [x] = x"
| "py_join sep (x # y # ys) = x @ sep @ py_join sep (y # ys)"

text \<open>\<open>int(s)\<close> on a string of ASCII digits.\<close>

definition digit_val :: "char \<Rightarrow> nat" where
  "digit_val c = code c - 48"

definition int_of_digits :: "string \<Rightarrow> nat" where
  "int_of_digits s = foldl (\<lambda>a c. 10 * a + digit_val c) 0 s"

section \<open>Exceptions\<close>

text \<open>
  The exceptions the program raises or meets, with the message \<open>str(e)\<close> gives.
  \<open>IndexError\<close> is raised bare by the handlers, so its message is empty.
\<close>

datatype error =
    ValueError string
  | IndexError
  | KeyError string
  | NameError string
  | OverflowError string

fun error_str :: "error \<Rightarrow> string" where
  "error_str (ValueError m) = m"
| "error_str IndexError = []"
| "error_str (KeyError m) = m"
| "error_str (NameError m) = m"
| "error_str (OverflowError m) = m"

section \<open>Fields\<close>

text \<open>
  \<open>Field\<close> and its subclasses \<open>Name\<close>, \<open>Phone\<close>, \<open>Birthday\<close> hold one attribute
  \<open>value\<close>. None of them defines \<open>__eq__\<close>, so \<open>==\<close> and \<open>in\<close> compare objects by
  identity: a field object carries its identity \<open>oid\<close> besides its class and its value.
\<close>

datatype field_class = FieldC | NameC | PhoneC | BirthdayC

record field =
  cls :: field_class
  oid :: nat
  fvalue :: string

definition Name :: "nat \<Rightarrow> string \<Rightarrow> field" where
  "Name i v = \<lparr>cls = NameC, oid = i, fvalue = v\<rparr>"

definition Phone :: "nat \<Rightarrow> string \<Rightarrow> field" where
  "Phone i v = \<lparr>cls = PhoneC, oid = i, fvalue = v\<rparr>"

definition Birthday :: "nat \<Rightarrow> string \<Rightarrow> field" where
  "Birthday i v = \<lparr>cls = BirthdayC, oid = i, fvalue = v\<rparr>"

text \<open>\<open>Field.__str__\<close>.\<close>

definition field_str :: "field \<Rightarrow> string" where
  "field_str f = fvalue f"

text \<open>\<open>x is y or x == y\<close> for two field objects, and \<open>y in xs\<close>, \<open>xs.index(y)\<close>.\<close>

definition same_object :: "field \<Rightarrow> field \<Rightarrow> bool" where
  "same_object x y = (oid x = oid y)"

definition contains :: "field list \<Rightarrow> field \<Rightarrow> bool" where
  "contains xs y = list_ex (\<lambda>x. same_object x y) xs"

fun index_of :: "field list \<Rightarrow> field \<Rightarrow> nat" where
  "index_of [] y = 0"
| "index_of (x # xs) y = (if same_object x y then 0 else Suc (index_of xs y))"

text \<open>\<open>xs.remove(y)\<close>: drops the first element equal to \<open>y\<close>.\<close>

fun remove_first :: "field list \<Rightarrow> field \<Rightarrow> field list" where
  "remove_first [] y = []"
| "remove_first (x # xs) y = (if same_object x y then xs else x # remove_first xs y)"

text \<open>\<open>Phone.validate_format\<close>.\<close>

definition Phone_validate_format :: "field \<Rightarrow> bool" where
  "Phone_validate_format p = (length (fvalue p) = 10 \<and> py_isdigit (fvalue p))"

section \<open>Calendar dates and \<open>datetime.strptime\<close>\<close>

text \<open>A \<open>date\<close> is year, month, day; dates are ordered lexicographically.\<close>

type_synonym date = "nat \<times> nat \<times> nat"

definition date_le :: "date \<Rightarrow> date \<Rightarrow> bool" where
  "date_le a b =
     (case a of (y1, m1, d1) \<Rightarrow> case b of (y2, m2, d2) \<Rightarrow>
        y1 < y2 \<or> (y1 = y2 \<and> (m1 < m2 \<or> (m1 = m2 \<and> d1 \<le> d2))))"

definition is_leap :: "nat \<Rightarrow> bool" where
  "is_leap y = (y mod 4 = 0 \<and> (y mod 100 \<noteq> 0 \<or> y mod 400 = 0))"

definition days_in_month :: "nat \<Rightarrow> nat \<Rightarrow> nat" where
  "days_in_month y m =
     (if m = 2 then (if is_leap y then 29 else 28)
      else if m = 4 \<or> m = 6 \<or> m = 9 \<or> m = 11 then 30 else 31)"

text \<open>The check of the \<open>date\<close> constructor: years 1 to 9999, an existing day.\<close>

definition valid_date :: "date \<Rightarrow> bool" where
  "valid_date dt =
     (case dt of (y, m, d) \<Rightarrow>
        1 \<le> y \<and> y \<le> 9999 \<and> 1 \<le> m \<and> m \<le> 12 \<and> 1 \<le> d \<and> d \<le> days_in_month y m)"

text \<open>
  \<open>strptime\<close> compiles the format \<open>%d.%m.%Y\<close> to the regular expression
  \<^verbatim>\<open>(?P<d>3[0-1]|[1-2]\d|0[1-9]|[1-9]| [1-9])\.(?P<m>1[0-2]|0[1-9]|[1-9])\.(?P<Y>\d\d\d\d)\<close>
  and matches it at the start of the string. A matcher returns every way to match a
  prefix, in the order a backtracking engine tries them, as the matched text and the rest.
\<close>

type_synonym matcher = "string \<Rightarrow> (string \<times> string) list"

definition one_char :: "(char \<Rightarrow> bool) \<Rightarrow> matcher" where
  "one_char P s = (case s of c # r \<Rightarrow> if P c then [([c], r)] else [] | [] \<Rightarrow> [])"

definition two_chars :: "(char \<Rightarrow> bool) \<Rightarrow> (char \<Rightarrow> bool) \<Rightarrow> matcher" where
  "two_chars P Q s =
     (case s of c1 # c2 # r \<Rightarrow> if P c1 \<and> Q c2 then [([c1, c2], r)] else [] | _ \<Rightarrow> [])"

definition re_d :: matcher where
  "re_d s =
     two_chars (\<lambda>c. c = CHR ''3'') (in_range 48 49) s
     @ two_chars (in_range 49 50) ascii_digit s
     @ two_chars (\<lambda>c. c = CHR ''0'') (in_range 49 57) s
     @ one_char (in_range 49 57) s
     @ two_chars (\<lambda>c. c = CHR '' '') (in_range 49 57) s"

definition re_m :: matcher where
  "re_m s =
     two_chars (\<lambda>c. c = CHR ''1'') (in_range 48 50) s
     @ two_chars (\<lambda>c. c = CHR ''0'') (in_range 49 57) s
     @ one_char (in_range 49 57) s"

definition re_Y :: matcher where
  "re_Y s =
     (case s of c1 # c2 # c3 # c4 # r \<Rightarrow>
        if ascii_digit c1 \<and> ascii_digit c2 \<and> ascii_digit c3 \<and> ascii_digit c4
        then [([c1, c2, c3, c4], r)] else []
      | _ \<Rightarrow> [])"

definition re_dot :: "string \<Rightarrow> string list" where
  "re_dot s = (case s of c # r \<Rightarrow> if c = CHR ''.'' then [r] else [] | [] \<Rightarrow> [])"

text \<open>All matches of the whole expression, first choice first: the groups and the rest.\<close>

definition format_regex_match :: "string \<Rightarrow> ((string \<times> string \<times> string) \<times> string) list" where
  "format_regex_match s =
     concat (map (\<lambda>(d, r1).
       concat (map (\<lambda>r2.
         concat (map (\<lambda>(m, r3).
           concat (map (\<lambda>r4.
             map (\<lambda>(y, r5). ((d, m, y), r5)) (re_Y r4))
           (re_dot r3)))
         (re_m r2)))
       (re_dot r1)))
     (re_d s))"

text \<open>
  \<open>datetime.strptime(s, "%d.%m.%Y").date()\<close>: the first match is taken; text left
  over, and a date that does not exist, raise \<open>ValueError\<close>. A space before a
  one-digit day is skipped by \<open>int\<close>.
\<close>

definition strptime :: "string \<Rightarrow> error + date" where
  "strptime s =
     (case format_regex_match s of
        [] \<Rightarrow> Inl (ValueError ''time data does not match format'')
      | ((d, m, y), rest) # _ \<Rightarrow>
          if rest \<noteq> [] then Inl (ValueError ''unconverted data remains'')
          else
            let dt = (int_of_digits y, int_of_digits m, int_of_digits (py_strip d))
            in if valid_date dt then Inr dt
               else Inl (ValueError ''date value out of range''))"

text \<open>\<open>Birthday.validate_format\<close>.\<close>

definition Birthday_validate_format :: "field \<Rightarrow> bool" where
  "Birthday_validate_format b =
     (case strptime (fvalue b) of Inr _ \<Rightarrow> True | Inl (ValueError _) \<Rightarrow> False | Inl _ \<Rightarrow> False)"

text \<open>\<open>today + timedelta(days=7)\<close>, which raises \<open>OverflowError\<close> past the year 9999.\<close>

definition next_day :: "date \<Rightarrow> date" where
  "next_day dt =
     (case dt of (y, m, d) \<Rightarrow>
        if d < days_in_month y m then (y, m, d + 1)
        else if m < 12 then (y, m + 1, 1)
        else (y + 1, 1, 1))"

definition plus_week :: "date \<Rightarrow> error + date" where
  "plus_week today =
     (let nw = (next_day ^^ 7) today
      in if fst nw \<le> 9999 then Inr nw else Inl (OverflowError ''date value out of range''))"

section \<open>Record\<close>

text \<open>
  A \<open>Record\<close> object: its identity, its \<open>Name\<close>, the list \<open>phones\<close> and the optional
  \<open>birthday\<close> (\<open>None\<close> until one is added). \<open>Record i nm\<close> is the constructor
  call \<open>Record(nm)\<close> that takes the identities \<open>i\<close> and \<open>i + 1\<close> for the record and
  for its \<open>Name\<close>.
\<close>

record record_obj =
  rid :: nat
  name :: field
  phones :: "field list"
  birthday :: "field option"

definition Record :: "nat \<Rightarrow> string \<Rightarrow> record_obj" where
  "Record i nm = \<lparr>rid = i, name = Name (i + 1) nm, phones = [], birthday = None\<rparr>"

text \<open>
  A method that mutates \<open>self\<close> returns its result, an exception or a value, together
  with the object as the call leaves it.
\<close>

definition add_phone :: "field \<Rightarrow> record_obj \<Rightarrow> (error + unit) \<times> record_obj" where
  "add_phone phone self =
     (if cls phone = PhoneC \<and> Phone_validate_format phone
      then (Inr (), self\<lparr>phones := phones self @ [phone]\<rparr>)
      else (Inl (ValueError ''Invalid phone number format.''), self))"

definition add_birthday :: "field \<Rightarrow> record_obj \<Rightarrow> (error + unit) \<times> record_obj" where
  "add_birthday b self =
     (if cls b = BirthdayC \<and> Birthday_validate_format b
      then (Inr (), self\<lparr>birthday := Some b\<rparr>)
      else (Inl (ValueError ''Invalid birthday format.''), self))"

definition remove_phone :: "field \<Rightarrow> record_obj \<Rightarrow> (error + unit) \<times> record_obj" where
  "remove_phone phone self =
     (if contains (phones self) phone
      then (Inr (), self\<lparr>phones := remove_first (phones self) phone\<rparr>)
      else (Inl (ValueError ''Phone number not found in the record.''), self))"

definition edit_phone :: "field \<Rightarrow> field \<Rightarrow> record_obj \<Rightarrow> (error + unit) \<times> record_obj" where
  "edit_phone old_phone new_phone self =
     (if contains (phones self) old_phone
      then (let index = index_of (phones self) old_phone
            in (Inr (), self\<lparr>phones := (phones self)[index := new_phone]\<rparr>))
      else (Inl (ValueError ''Phone number not found in the record.''), self))"

definition find_phone :: "field \<Rightarrow> record_obj \<Rightarrow> (error + string) \<times> record_obj" where
  "find_phone phone self =
     (if contains (phones self) phone
      then (Inr (field_str phone), self)
      else (Inl (ValueError ''Phone number not found in the record.''), self))"

text \<open>\<open>Record.__str__\<close>; a \<open>Birthday\<close> object is truthy, \<open>None\<close> is not.\<close>

definition record_str :: "record_obj \<Rightarrow> string" where
  "record_str self =
     (let phone_list = py_join ''; '' (map field_str (phones self));
          birthday_info = (case birthday self of
                             Some b \<Rightarrow> '', Birthday: '' @ field_str b
                           | None \<Rightarrow> [])
      in ''Contact name: '' @ fvalue (name self) @ '', phones: '' @ phone_list @ birthday_info)"

section \<open>AddressBook\<close>

text \<open>
  \<open>self.data\<close> is a \<open>dict\<close>: keys are unique and iteration follows the order in which
  the keys were first inserted. It is an association list: assigning to a key that is
  present replaces the value where it stands, a new key goes to the end
  (\<^const>\<open>AList.update\<close>), \<open>del\<close> drops the key (\<^const>\<open>AList.delete\<close>).
\<close>

type_synonym address_book = "(string \<times> record_obj) list"

text \<open>The Python values that are passed to \<open>add_record\<close>, returned by handlers and printed.\<close>

datatype pyobj = RecordObj record_obj | FieldObj field | StrObj string

fun py_str :: "pyobj \<Rightarrow> string" where
  "py_str (RecordObj r) = record_str r"
| "py_str (FieldObj f) = field_str f"
| "py_str (StrObj s) = s"

definition add_record :: "pyobj \<Rightarrow> address_book \<Rightarrow> (error + unit) \<times> address_book" where
  "add_record record data =
     (case record of
        RecordObj r \<Rightarrow> (Inr (), AList.update (py_lower (fvalue (name r))) r data)
      | _ \<Rightarrow> (Inl (ValueError ''Invalid record format.''), data))"

definition delete :: "string \<Rightarrow> address_book \<Rightarrow> (error + unit) \<times> address_book" where
  "delete nm data =
     (let name_lower = py_lower nm
      in if name_lower \<in> set (map fst data)
         then (Inr (), AList.delete name_lower data)
         else (Inl (ValueError ''Record not found in the address book.''), data))"

definition find :: "string \<Rightarrow> address_book \<Rightarrow> (error + record_obj) \<times> address_book" where
  "find nm data =
     (let name_lower = py_lower nm
      in case map_of data name_lower of
           Some r \<Rightarrow> (Inr r, data)
         | None \<Rightarrow> (Inl (ValueError ''Record not found in the address book.''), data))"

text \<open>
  \<open>get_birthdays_per_week\<close>, with the value of \<open>datetime.now()\<close> as the argument
  \<open>today\<close>. The loop runs over \<open>self.data.values()\<close> and appends to \<open>birthdays\<close>.
\<close>

fun birthdays_loop :: "date \<Rightarrow> string list \<Rightarrow> record_obj list \<Rightarrow> error + string list" where
  "birthdays_loop next_week acc [] = Inr acc"
| "birthdays_loop next_week acc (r # rs) =
     (case birthday r of
        None \<Rightarrow> birthdays_loop next_week acc rs
      | Some b \<Rightarrow>
          (case strptime (fvalue b) of
             Inl e \<Rightarrow> Inl e
           | Inr dt \<Rightarrow>
               if date_le dt next_week
               then birthdays_loop next_week (acc @ [record_str r]) rs
               else birthdays_loop next_week acc rs))"

definition get_birthdays_per_week :: "date \<Rightarrow> address_book \<Rightarrow> error + string list" where
  "get_birthdays_per_week today data =
     (case plus_week today of
        Inl e \<Rightarrow> Inl e
      | Inr next_week \<Rightarrow> birthdays_loop next_week [] (map snd data))"

section \<open>Command handlers\<close>

text \<open>
  The state of a run: the address book of \<open>main\<close> and the next unused object identity.
  A handler body returns an exception or a value, and the state as it leaves it. A
  record found in the book is an object shared with the book, so a method called on it
  leaves its result in the book under the key it was found at.
\<close>

record session =
  book :: address_book
  next_oid :: nat

definition parse_input :: "string \<Rightarrow> error + (string \<times> string list)" where
  "parse_input user_input =
     (case py_split user_input of
        [] \<Rightarrow> Inl (ValueError ''not enough values to unpack (expected at least 1, got 0)'')
      | cmd # args \<Rightarrow> Inr (py_lower (py_strip cmd), args))"

text \<open>The decorator \<open>input_error\<close>: every exception of the body becomes a message.\<close>

definition input_error ::
  "(string list \<Rightarrow> session \<Rightarrow> (error + pyobj) \<times> session) \<Rightarrow> string list \<Rightarrow> session \<Rightarrow> pyobj \<times> session" where
  "input_error func args s =
     (case func args s of
        (Inr v, s') \<Rightarrow> (v, s')
      | (Inl (ValueError m), s') \<Rightarrow> (StrObj ''Invalid input or contact not found.'', s')
      | (Inl IndexError, s') \<Rightarrow> (StrObj ''Enter valid input.'', s')
      | (Inl (KeyError m), s') \<Rightarrow> (StrObj ''Contact not found.'', s')
      | (Inl e, s') \<Rightarrow> (StrObj (''An error occurred: '' @ error_str e), s'))"

definition add_contact_body :: "string list \<Rightarrow> session \<Rightarrow> (error + pyobj) \<times> session" where
  "add_contact_body args s =
     (if length args \<noteq> 2 then (Inl IndexError, s)
      else
        let nm = args ! 0; phone = args ! 1;
            record = Record (next_oid s) nm;
            p = Phone (next_oid s + 2) phone;
            s1 = s\<lparr>next_oid := next_oid s + 3\<rparr>
        in case add_phone p record of
             (Inl e, _) \<Rightarrow> (Inl e, s1)
           | (Inr _, record') \<Rightarrow>
               (case add_record (RecordObj record') (book s1) of
                  (Inl e, data') \<Rightarrow> (Inl e, s1\<lparr>book := data'\<rparr>)
                | (Inr _, data') \<Rightarrow> (Inr (StrObj ''Contact added.''), s1\<lparr>book := data'\<rparr>)))"

definition add_contact :: "string list \<Rightarrow> session \<Rightarrow> pyobj \<times> session" where
  "add_contact = input_error add_contact_body"

text \<open>
  \<open>change_contact\<close> builds both arguments of \<open>edit_phone\<close> from \<open>args[1]\<close>, as two
  new \<open>Phone\<close> objects, after \<open>book.find(name)\<close> has returned.
\<close>

definition change_contact_body :: "string list \<Rightarrow> session \<Rightarrow> (error + pyobj) \<times> session" where
  "change_contact_body args s =
     (if length args \<noteq> 2 then (Inl IndexError, s)
      else
        let nm = args ! 0; phone = args ! 1
        in case find nm (book s) of
             (Inl e, data') \<Rightarrow> (Inl e, s\<lparr>book := data'\<rparr>)
           | (Inr r, data') \<Rightarrow>
               let old_phone = Phone (next_oid s) phone;
                   new_phone = Phone (next_oid s + 1) (args ! 1);
                   s1 = s\<lparr>book := data', next_oid := next_oid s + 2\<rparr>
               in case edit_phone old_phone new_phone r of
                    (Inl e, r') \<Rightarrow> (Inl e, s1\<lparr>book := AList.update (py_lower nm) r' data'\<rparr>)
                  | (Inr _, r') \<Rightarrow>
                      (Inr (StrObj ''Contact updated.''),
                       s1\<lparr>book := AList.update (py_lower nm) r' data'\<rparr>))"

definition change_contact :: "string list \<Rightarrow> session \<Rightarrow> pyobj \<times> session" where
  "change_contact = input_error change_contact_body"

definition show_phone_body :: "string list \<Rightarrow> session \<Rightarrow> (error + pyobj) \<times> session" where
  "show_phone_body args s =
     (if length args \<noteq> 1 then (Inl IndexError, s)
      else
        let nm = args ! 0
        in case find nm (book s) of
             (Inl e, data') \<Rightarrow> (Inl e, s\<lparr>book := data'\<rparr>)
           | (Inr r, data') \<Rightarrow> (Inr (RecordObj r), s\<lparr>book := data'\<rparr>))"

definition show_phone :: "string list \<Rightarrow> session \<Rightarrow> pyobj \<times> session" where
  "show_phone = input_error show_phone_body"

definition add_birthday_body :: "string list \<Rightarrow> session \<Rightarrow> (error + pyobj) \<times> session" where
  "add_birthday_body args s =
     (if length args \<noteq> 2 then (Inl IndexError, s)
      else
        let nm = args ! 0; bday = args ! 1
        in case find nm (book s) of
             (Inl e, data') \<Rightarrow> (Inl e, s\<lparr>book := data'\<rparr>)
           | (Inr record, data') \<Rightarrow>
               let b = Birthday (next_oid s) bday;
                   s1 = s\<lparr>book := data', next_oid := next_oid s + 1\<rparr>
               in case add_birthday b record of
                    (Inl e, r') \<Rightarrow> (Inl e, s1\<lparr>book := AList.update (py_lower nm) r' data'\<rparr>)
                  | (Inr _, r') \<Rightarrow>
                      (Inr (StrObj ''Birthday added to the contact.''),
                       s1\<lparr>book := AList.update (py_lower nm) r' data'\<rparr>))"

definition add_birthday_handler :: "string list \<Rightarrow> session \<Rightarrow> pyobj \<times> session" where
  "add_birthday_handler = input_error add_birthday_body"

definition show_birthday_body :: "string list \<Rightarrow> session \<Rightarrow> (error + pyobj) \<times> session" where
  "show_birthday_body args s =
     (if length args \<noteq> 1 then (Inl IndexError, s)
      else
        let nm = args ! 0
        in case find nm (book s) of
             (Inl e, data') \<Rightarrow> (Inl e, s\<lparr>book := data'\<rparr>)
           | (Inr r, data') \<Rightarrow>
               (case birthday r of
                  Some b \<Rightarrow> (Inr (FieldObj b), s\<lparr>book := data'\<rparr>)
                | None \<Rightarrow> (Inr (StrObj ''Birthday not found.''), s\<lparr>book := data'\<rparr>)))"

definition show_birthday :: "string list \<Rightarrow> session \<Rightarrow> pyobj \<times> session" where
  "show_birthday = input_error show_birthday_body"

text \<open>\<open>birthdays\<close> is not decorated: an exception of the query leaves it.\<close>

definition birthdays :: "date \<Rightarrow> session \<Rightarrow> error + string" where
  "birthdays today s =
     (case get_birthdays_per_week today (book s) of
        Inl e \<Rightarrow> Inl e
      | Inr upcoming_birthdays \<Rightarrow>
          if upcoming_birthdays = [] then Inr ''No upcoming birthdays in the next week.''
          else Inr (py_join [CHR 0x0A] upcoming_birthdays))"

text \<open>
  The module defines no \<open>show_all\<close>: evaluating the name in \<open>main\<close> raises
  \<open>NameError\<close>, before anything is printed.
\<close>

definition show_all :: "session \<Rightarrow> error + pyobj" where
  "show_all s = Inl (NameError (''name '' @ [CHR 0x27] @ ''show_all'' @ [CHR 0x27] @ '' is not defined''))"

section \<open>The loop of \<open>main\<close>\<close>

text \<open>
  One turn of the loop on the line that \<open>input\<close> returned: the lines printed, the
  state, and whether the loop goes on. The \<open>except Exception\<close> of the loop prints the
  message of any exception that reaches it.
\<close>

definition report :: "error \<Rightarrow> string" where
  "report e = ''Error: '' @ error_str e @ ''. Please try again.''"

definition main_step :: "date \<Rightarrow> string \<Rightarrow> session \<Rightarrow> string list \<times> session \<times> bool" where
  "main_step today user_input s =
     (case parse_input user_input of
        Inl e \<Rightarrow> ([report e], s, True)
      | Inr (command, args) \<Rightarrow>
          if command = ''close'' \<or> command = ''exit'' then ([''Good bye!''], s, False)
          else if command = ''hello'' then ([''How can I help you?''], s, True)
          else if command = ''add'' then
            (case add_contact args s of (v, s') \<Rightarrow> ([py_str v], s', True))
          else if command = ''change'' then
            (case change_contact args s of (v, s') \<Rightarrow> ([py_str v], s', True))
          else if command = ''phone'' then
            (case show_phone args s of (v, s') \<Rightarrow> ([py_str v], s', True))
          else if command = ''all'' then
            (case show_all s of
               Inl e \<Rightarrow> ([report e], s, True)
             | Inr v \<Rightarrow> ([py_str v], s, True))
          else if command = ''add-birthday'' then
            (case add_birthday_handler args s of (v, s') \<Rightarrow> ([py_str v], s', True))
          else if command = ''show-birthday'' then
            (case show_birthday args s of (v, s') \<Rightarrow> ([py_str v], s', True))
          else if command = ''birthdays'' then
            (case birthdays today s of
               Inl e \<Rightarrow> ([report e], s, True)
             | Inr v \<Rightarrow> ([v], s, True))
          else ([''Invalid command.''], s, True))"

text \<open>The loop over the lines typed, from a state; it ends with \<open>close\<close> or \<open>exit\<close>.\<close>

fun main_loop :: "date \<Rightarrow> string list \<Rightarrow> session \<Rightarrow> string list \<times> session" where
  "main_loop today [] s = ([], s)"
| "main_loop today (l # ls) s =
     (case main_step today l s of
        (out, s', go_on) \<Rightarrow>
          if go_on then (case main_loop today ls s' of (outs, s'') \<Rightarrow> (out @ outs, s''))
          else (out, s'))"

definition main :: "date \<Rightarrow> string list \<Rightarrow> string list \<times> session" where
  "main today inputs =
     (case main_loop today inputs \<lparr>book = [], next_oid = 0\<rparr> of
        (outs, s) \<Rightarrow> (''Welcome to the assistant bot!'' # outs, s))"

section \<open>Runs and reference definitions\<close>

text \<open>The record and the state after the single command \<open>add John 1234567890\<close>.\<close>

definition john_record :: record_obj where
  "john_record =
     \<lparr>rid = 0, name = Name 1 ''John'', phones = [Phone 2 ''1234567890''], birthday = None\<rparr>"

definition john_session :: session where
  "john_session = snd (add_contact [''John'', ''1234567890''] \<lparr>book = [], next_oid = 0\<rparr>)"

text \<open>
  A caller of the directory: any sequence of \<open>add_record\<close>, \<open>delete\<close> and \<open>find\<close>
  calls from the empty book, where a call that raises leaves the book to the next call.
\<close>

datatype dir_op = AddRecord pyobj | Delete string | Find string

fun dir_step :: "dir_op \<Rightarrow> address_book \<Rightarrow> address_book" where
  "dir_step (AddRecord r) data = snd (add_record r data)"
| "dir_step (Delete nm) data = snd (delete nm data)"
| "dir_step (Find nm) data = snd (find nm data)"

definition run_ops :: "dir_op list \<Rightarrow> address_book" where
  "run_ops ops = foldl (\<lambda>data op. dir_step op data) [] ops"

definition keyed_by_name :: "address_book \<Rightarrow> bool" where
  "keyed_by_name data = (\<forall>(k, r) \<in> set data. py_lower (fvalue (name r)) = k)"

text \<open>A book with three records, for the birthday query.\<close>

definition example_book :: address_book where
  "example_book =
     [(''john'', john_record\<lparr>birthday := Some (Birthday 3 ''15.08.1990'')\<rparr>),
      (''ann'', \<lparr>rid = 4, name = Name 5 ''Ann'', phones = [Phone 6 ''0501112233''],
                birthday = None\<rparr>),
      (''bob'', \<lparr>rid = 7, name = Name 8 ''Bob'', phones = [],
                birthday = Some (Birthday 9 ''1.1.2030'')\<rparr>)]"

text \<open>
  A record is due at \<open>next_week\<close> when it has a birthday whose text, parsed as a full
  date with its year, is not later than \<open>next_week\<close>.
\<close>

definition due :: "date \<Rightarrow> record_obj \<Rightarrow> bool" where
  "due next_week r =
     (case birthday r of
        None \<Rightarrow> False
      | Some b \<Rightarrow> (case strptime (fvalue b) of Inr dt \<Rightarrow> date_le dt next_week | Inl _ \<Rightarrow> False))"

text \<open>Every stored birthday passes the validation, as \<open>add_birthday\<close> requires.\<close>

definition birthdays_valid :: "address_book \<Rightarrow> bool" where
  "birthdays_valid data =
     list_all (\<lambda>(k, r). case birthday r of None \<Rightarrow> True | Some b \<Rightarrow> Birthday_validate_format b)
       data"

definition birthday_ok :: "record_obj \<Rightarrow> bool" where
  "birthday_ok r = (case birthday r of None \<Rightarrow> True | Some b \<Rightarrow> Birthday_validate_format b)"

text \<open>The messages by which \<open>input_error\<close> reports an exception of a handler.\<close>

definition error_message :: "pyobj \<Rightarrow> bool" where
  "error_message v =
     (case v of
        StrObj m \<Rightarrow> m = ''Invalid input or contact not found.'' \<or> m = ''Enter valid input.''
                    \<or> m = ''Contact not found.'' \<or> take 19 m = ''An error occurred: ''
      | _ \<Rightarrow> False)"

text \<open>
  The texts of a birthday string between its dots: a day is one or two ASCII digits, or
  a space and a digit; a month is one or two ASCII digits; a year is four ASCII digits.
\<close>

definition day_text :: "string \<Rightarrow> bool" where
  "day_text t =
     (case t of
        [c] \<Rightarrow> ascii_digit c
      | [c1, c2] \<Rightarrow> (c1 = CHR '' '' \<or> ascii_digit c1) \<and> ascii_digit c2
      | _ \<Rightarrow> False)"

definition month_text :: "string \<Rightarrow> bool" where
  "month_text t =
     (case t of
        [c] \<Rightarrow> ascii_digit c
      | [c1, c2] \<Rightarrow> ascii_digit c1 \<and> ascii_digit c2
      | _ \<Rightarrow> False)"

definition year_text :: "string \<Rightarrow> bool" where
  "year_text t = (length t = 4 \<and> list_all ascii_digit t)"

section \<open>Characters and association lists\<close>

lemma code_eq_iff: "(c = c') = (code c = code c')"
  by (auto simp: code_def)

lemma set_update_subset: "set (AList.update k v al) \<subseteq> insert (k, v) (set al)"
  by (induction al) auto

lemma set_delete_subset: "set (AList.delete k al) \<subseteq> set al"
  by (auto simp: AList.delete_eq)

lemma update_same: "map_of al k = Some v \<Longrightarrow> AList.update k v al = al"
  by (induction al) (auto split: if_splits)

lemma chr_code [simp]:
  "(c = CHR ''0'') = (code c = 48)"
  "(c = CHR ''1'') = (code c = 49)"
  "(c = CHR ''3'') = (code c = 51)"
  "(c = CHR '' '') = (code c = 32)"
  "(c = CHR ''.'') = (code c = 46)"
  by (simp_all add: code_eq_iff[of c] code_def)

lemma code_lit [simp]: "code (CHR ''.'') = 46" "code (CHR '' '') = 32"
  by (simp_all add: code_def)

lemma split_at_first:
  "a @ c # x = b @ c # y \<Longrightarrow> c \<notin> set a \<Longrightarrow> c \<notin> set b \<Longrightarrow> a = b \<and> x = y"
proof (induction a arbitrary: b)
  case Nil
  then show ?case by (cases b) auto
next
  case (Cons h a)
  then show ?case by (cases b) auto
qed

section \<open>The command \<open>all\<close>\<close>

text \<open>
  Claim C1. The command \<open>all\<close> on a book with records should print the rendering of
  every record. In the program the branch calls \<open>show_all\<close>, which is defined nowhere:
  after \<open>add John 1234567890\<close> the command prints the report of a \<open>NameError\<close> and
  no record.
\<close>

theorem all_command_prints_name_error:
  "fst (main (2026, 11, 4) [''add John 1234567890'', ''all'']) =
     [''Welcome to the assistant bot!'', ''Contact added.'',
      ''Error: name '' @ [CHR 0x27] @ ''show_all'' @ [CHR 0x27]
        @ '' is not defined. Please try again.'']"
  by code_simp

section \<open>The handler \<open>change_contact\<close>\<close>

text \<open>
  Claim C2, as amended. The handler takes exactly two arguments: called with an
  argument list of any other length, in particular with a name, a phone and a new
  phone, it returns \<open>Enter valid input.\<close> and leaves the state as it was.
\<close>

theorem change_contact_wrong_arity:
  "length args \<noteq> 2 \<Longrightarrow> change_contact args s = (StrObj ''Enter valid input.'', s)"
  by (simp add: change_contact_def input_error_def change_contact_body_def)

theorem change_contact_wrong_arity_witness:
  "length [''John'', ''1234567890'', ''0987654321''] \<noteq> 2
   \<and> change_contact [''John'', ''1234567890'', ''0987654321''] john_session
       = (StrObj ''Enter valid input.'', john_session)"
  using change_contact_wrong_arity [of "[''John'', ''1234567890'', ''0987654321'']" john_session]
  by simp

text \<open>
  The claim as written fails: John is stored with the phone 1234567890, and the handler
  called with the name, that phone and a new phone does not return \<open>Contact updated.\<close>.
\<close>

theorem change_contact_three_args_counterexample:
  "fst (find ''John'' (book john_session)) = Inr john_record
   \<and> map fvalue (phones john_record) = [''1234567890'']
   \<and> fst (change_contact [''John'', ''1234567890'', ''0987654321''] john_session)
       \<noteq> StrObj ''Contact updated.''"
  by code_simp

section \<open>\<open>Record.edit_phone\<close>\<close>

text \<open>
  Claim C3. \<open>edit_phone(old, new)\<close> should find the stored phone with the digits of
  \<open>old\<close> and replace it. In the program \<open>in\<close> and \<open>index\<close> compare \<open>Phone\<close> objects
  by identity: a new \<open>Phone\<close> object with the stored digits, which is what
  \<open>change_contact\<close> passes, is not found. In the scenario the command
  \<open>change John 1234567890 0987654321\<close> is refused for its three arguments, and
  \<open>phone John\<close> prints the summary of the record with the old phone.
\<close>

theorem edit_phone_new_object_not_found:
  "map fvalue (phones john_record) = [fvalue (Phone 3 ''1234567890'')]
   \<and> edit_phone (Phone 3 ''1234567890'') (Phone 4 ''0987654321'') john_record
       = (Inl (ValueError ''Phone number not found in the record.''), john_record)
   \<and> fst (change_contact [''John'', ''1234567890''] john_session)
       = StrObj ''Invalid input or contact not found.''
   \<and> fst (main (2026, 11, 4)
        [''add John 1234567890'', ''change John 1234567890 0987654321'', ''phone John''])
       = [''Welcome to the assistant bot!'', ''Contact added.'', ''Enter valid input.'',
          ''Contact name: John, phones: 1234567890'']"
  by code_simp

section \<open>\<open>Phone.validate_format\<close>\<close>

text \<open>
  Claim C5, as amended. Phone validation returns true iff the string has length
  exactly 10 and every character is a digit for \<open>str.isdigit\<close>: an ASCII digit 0 to 9
  or one of the superscript digits with code point 0xB2, 0xB3 or 0xB9. Every other
  string is rejected, so one with a separator or a leading plus sign is.
\<close>

theorem phone_validate_format_iff:
  "Phone_validate_format p \<longleftrightarrow>
     length (fvalue p) = 10
     \<and> (\<forall>c \<in> set (fvalue p). ascii_digit c \<or> code c = 178 \<or> code c = 179 \<or> code c = 185)"
  by (auto simp: Phone_validate_format_def py_isdigit_def py_isdigit_char_def list_all_iff)

theorem phone_validate_format_iff_witness:
  "Phone_validate_format (Phone 0 ''1234567890'')
   \<and> \<not> Phone_validate_format (Phone 0 ''+123456789'')"
  using phone_validate_format_iff [of "Phone 0 ''1234567890''"]
    phone_validate_format_iff [of "Phone 0 ''+123456789''"]
  by (simp add: Phone_def ascii_digit_def in_range_def code_def)

text \<open>
  The claim as written fails: ten superscript twos are not ASCII digits and the
  validation accepts them.
\<close>

theorem phone_superscript_digits_counterexample:
  "Phone_validate_format (Phone 0 (replicate 10 (CHR 0xB2)))
   \<and> \<not> list_all ascii_digit (replicate 10 (CHR 0xB2))"
  by code_simp

section \<open>The key invariant of the directory\<close>

lemma dir_step_keyed: "keyed_by_name data \<Longrightarrow> keyed_by_name (dir_step op data)"
proof (cases op)
  case (AddRecord x)
  assume k: "keyed_by_name data"
  show ?thesis
  proof (cases x)
    case (RecordObj r)
    with AddRecord k show ?thesis
      using set_update_subset[of "py_lower (fvalue (name r))" r data]
      by (auto simp: keyed_by_name_def add_record_def)
  qed (use AddRecord k in \<open>auto simp: add_record_def\<close>)
next
  case (Delete nm)
  assume "keyed_by_name data"
  with Delete show ?thesis
    using set_delete_subset[of "py_lower nm" data]
    by (auto simp: keyed_by_name_def delete_def Let_def)
next
  case (Find nm)
  assume "keyed_by_name data"
  with Find show ?thesis by (auto simp: find_def Let_def split: option.splits)
qed

lemma foldl_keyed:
  "keyed_by_name data \<Longrightarrow> keyed_by_name (foldl (\<lambda>data op. dir_step op data) data ops)"
  by (induction ops arbitrary: data) (auto intro: dir_step_keyed)

text \<open>
  Claim C7. In every book reached from the empty book by \<open>add_record\<close>, \<open>delete\<close> and
  \<open>find\<close> calls, every entry is stored under the lowercased name of its record.
\<close>

theorem key_is_lowercased_name:
  "(k, r) \<in> set (run_ops ops) \<Longrightarrow> py_lower (fvalue (name r)) = k"
  using foldl_keyed[of "[]" ops] by (auto simp: run_ops_def keyed_by_name_def)

theorem key_is_lowercased_name_witness:
  "(''john'', Record 0 ''John'') \<in> set (run_ops
      [AddRecord (RecordObj (Record 5 ''Ann'')), AddRecord (RecordObj (Record 0 ''John'')),
       Find ''ANN'', Delete ''ann''])
   \<and> py_lower (fvalue (name (Record 0 ''John''))) = ''john''"
proof -
  have m: "(''john'', Record 0 ''John'') \<in> set (run_ops
      [AddRecord (RecordObj (Record 5 ''Ann'')), AddRecord (RecordObj (Record 0 ''John'')),
       Find ''ANN'', Delete ''ann''])"
    by code_simp
  from key_is_lowercased_name [OF m] m show ?thesis by simp
qed

text \<open>
  Claim C8. After \<open>add_record(r)\<close>, \<open>find\<close> with any string that lowercases to the
  lowercased name of \<open>r\<close> returns \<open>r\<close>.
\<close>

theorem find_after_add_record:
  "py_lower t = py_lower (fvalue (name r)) \<Longrightarrow>
     fst (find t (snd (add_record (RecordObj r) data))) = Inr r"
  by (simp add: find_def add_record_def update_conv')

theorem find_after_add_record_witness:
  "py_lower ''JOHN'' = py_lower (fvalue (name john_record))
   \<and> fst (find ''JOHN'' (snd (add_record (RecordObj john_record) []))) = Inr john_record"
proof -
  have h: "py_lower ''JOHN'' = py_lower (fvalue (name john_record))"
    by code_simp
  from find_after_add_record [OF h, of "[]"] h show ?thesis by simp
qed

section \<open>\<open>Birthday.validate_format\<close>\<close>

lemma re_d_sound: "(d, r) \<in> set (re_d s) \<Longrightarrow> s = d @ r \<and> day_text d"
  by (auto simp: re_d_def one_char_def two_chars_def day_text_def in_range_def ascii_digit_def
      split: list.splits if_splits)

lemma re_m_sound: "(m, r) \<in> set (re_m s) \<Longrightarrow> s = m @ r \<and> month_text m"
  by (auto simp: re_m_def one_char_def two_chars_def month_text_def in_range_def ascii_digit_def
      split: list.splits if_splits)

lemma re_Y_sound: "(y, r) \<in> set (re_Y s) \<Longrightarrow> s = y @ r \<and> year_text y"
  by (auto simp: re_Y_def year_text_def split: list.splits if_splits)

lemma re_dot_sound: "r \<in> set (re_dot s) \<Longrightarrow> s = CHR ''.'' # r"
  by (auto simp: re_dot_def split: list.splits if_splits)

lemma match_sound:
  assumes "((d, m, y), r) \<in> set (format_regex_match s)"
  shows "s = d @ ''.'' @ m @ ''.'' @ y @ r \<and> day_text d \<and> month_text m \<and> year_text y"
proof -
  from assms obtain r1 r2 r3 r4 where
    "(d, r1) \<in> set (re_d s)" "r2 \<in> set (re_dot r1)" "(m, r3) \<in> set (re_m r2)"
    "r4 \<in> set (re_dot r3)" "(y, r) \<in> set (re_Y r4)"
    by (auto simp: format_regex_match_def)
  then show ?thesis
    using re_d_sound[of d r1 s] re_dot_sound[of r2 r1] re_m_sound[of m r3 r2]
      re_dot_sound[of r4 r3] re_Y_sound[of y r r4]
    by simp
qed


lemma digit_not_space: "ascii_digit c \<Longrightarrow> \<not> py_isspace_char c"
  by (auto simp: ascii_digit_def py_isspace_char_def in_range_def)

lemma re_d_complete:
  "day_text d \<Longrightarrow> 1 \<le> int_of_digits (py_strip d) \<Longrightarrow> int_of_digits (py_strip d) \<le> 31 \<Longrightarrow>
     (d, r) \<in> set (re_d (d @ r))"
  by (auto simp: day_text_def re_d_def one_char_def two_chars_def in_range_def ascii_digit_def
      int_of_digits_def digit_val_def py_strip_def py_isspace_char_def
      split: list.splits if_splits)

lemma re_m_complete:
  "month_text m \<Longrightarrow> 1 \<le> int_of_digits m \<Longrightarrow> int_of_digits m \<le> 12 \<Longrightarrow>
     (m, r) \<in> set (re_m (m @ r))"
  by (auto simp: month_text_def re_m_def one_char_def two_chars_def in_range_def ascii_digit_def
      int_of_digits_def digit_val_def split: list.splits if_splits)

lemma re_Y_complete: "year_text y \<Longrightarrow> (y, r) \<in> set (re_Y (y @ r))"
  by (auto simp: year_text_def re_Y_def numeral_eq_Suc length_Suc_conv)

lemma re_dot_complete: "r \<in> set (re_dot (CHR ''.'' # r))"
  by (simp add: re_dot_def)

lemma match_complete:
  assumes "day_text d" "month_text m" "year_text y"
    and "1 \<le> int_of_digits (py_strip d)" "int_of_digits (py_strip d) \<le> 31"
    and "1 \<le> int_of_digits m" "int_of_digits m \<le> 12"
  shows "((d, m, y), []) \<in> set (format_regex_match (d @ ''.'' @ m @ ''.'' @ y))"
proof -
  have 1: "(d, ''.'' @ m @ ''.'' @ y) \<in> set (re_d (d @ ''.'' @ m @ ''.'' @ y))"
    using assms by (intro re_d_complete)
  have 2: "m @ ''.'' @ y \<in> set (re_dot (''.'' @ m @ ''.'' @ y))"
    using re_dot_complete by simp
  have 3: "(m, ''.'' @ y) \<in> set (re_m (m @ ''.'' @ y))"
    using assms by (intro re_m_complete)
  have 4: "y \<in> set (re_dot (''.'' @ y))"
    using re_dot_complete by simp
  have 5: "(y, []) \<in> set (re_Y y)"
    using re_Y_complete[OF assms(3), of "[]"] by simp
  show ?thesis
    unfolding format_regex_match_def using 1 2 3 4 5 by fastforce
qed

lemma day_text_no_dot: "day_text d \<Longrightarrow> CHR ''.'' \<notin> set d"
  by (auto simp: day_text_def ascii_digit_def in_range_def split: list.splits)

lemma month_text_no_dot: "month_text d \<Longrightarrow> CHR ''.'' \<notin> set d"
  by (auto simp: month_text_def ascii_digit_def in_range_def split: list.splits)

lemma match_unique:
  assumes "((d, m, y), r) \<in> set (format_regex_match s)"
    and "((d', m', y'), r') \<in> set (format_regex_match s)"
  shows "d' = d \<and> m' = m \<and> y' = y \<and> r' = r"
proof -
  from match_sound[OF assms(1)] have a: "s = d @ CHR ''.'' # (m @ CHR ''.'' # (y @ r))"
    and sh: "day_text d" "month_text m" "year_text y" by simp_all
  from match_sound[OF assms(2)] have b: "s = d' @ CHR ''.'' # (m' @ CHR ''.'' # (y' @ r'))"
    and sh': "day_text d'" "month_text m'" "year_text y'" by simp_all
  from a b have "d @ CHR ''.'' # (m @ CHR ''.'' # (y @ r)) = d' @ CHR ''.'' # (m' @ CHR ''.'' # (y' @ r'))"
    by simp
  from split_at_first[OF this day_text_no_dot[OF sh(1)] day_text_no_dot[OF sh'(1)]]
  have 1: "d = d'" and 2: "m @ CHR ''.'' # (y @ r) = m' @ CHR ''.'' # (y' @ r')" by simp_all
  from split_at_first[OF 2 month_text_no_dot[OF sh(2)] month_text_no_dot[OF sh'(2)]]
  have 3: "m = m'" and 4: "y @ r = y' @ r'" by simp_all
  from 4 sh(3) sh'(3) have "y = y' \<and> r = r'" by (simp add: year_text_def)
  with 1 3 show ?thesis by simp
qed

lemma valid_date_bounds:
  "valid_date (y, m, d) \<Longrightarrow> 1 \<le> d \<and> d \<le> 31 \<and> 1 \<le> m \<and> m \<le> 12"
  by (auto simp: valid_date_def days_in_month_def split: if_splits)

lemma strptime_complete:
  assumes "day_text d" "month_text m" "year_text y"
    and "valid_date (int_of_digits y, int_of_digits m, int_of_digits (py_strip d))"
  shows "strptime (d @ ''.'' @ m @ ''.'' @ y)
           = Inr (int_of_digits y, int_of_digits m, int_of_digits (py_strip d))"
proof -
  let ?s = "d @ ''.'' @ m @ ''.'' @ y"
  from valid_date_bounds[OF assms(4)] assms(1-3)
  have mem: "((d, m, y), []) \<in> set (format_regex_match ?s)"
    by (intro match_complete) simp_all
  then obtain x xs where ne: "format_regex_match ?s = x # xs"
    by (cases "format_regex_match ?s") auto
  obtain d' m' y' r' where x: "x = ((d', m', y'), r')" by (cases x) auto
  from ne x have "((d', m', y'), r') \<in> set (format_regex_match ?s)" by simp
  from match_unique[OF mem this] x have "x = ((d, m, y), [])" by simp
  with ne assms(4) show ?thesis by (simp add: strptime_def)
qed

lemma strptime_sound:
  assumes "strptime s = Inr dt"
  shows "\<exists>d m y. s = d @ ''.'' @ m @ ''.'' @ y \<and> day_text d \<and> month_text m \<and> year_text y
           \<and> dt = (int_of_digits y, int_of_digits m, int_of_digits (py_strip d)) \<and> valid_date dt"
proof -
  from assms obtain d m y xs where ne: "format_regex_match s = ((d, m, y), []) # xs"
    and dt: "dt = (int_of_digits y, int_of_digits m, int_of_digits (py_strip d))" "valid_date dt"
    by (auto simp: strptime_def Let_def split: list.splits if_splits)
  from ne have "((d, m, y), []) \<in> set (format_regex_match s)" by simp
  from match_sound[OF this] dt show ?thesis by auto
qed

text \<open>
  Claim C6, as amended. Birthday validation returns true iff the string is a day, a
  month and a year separated by dots, where the day is one or two ASCII digits or a
  space and a digit, the month is one or two ASCII digits and the year is exactly four
  ASCII digits, and the three numbers are a date of the calendar in the years 1 to 9999.
  Leading zeros are accepted and not required.
\<close>

theorem birthday_validate_format_iff:
  "Birthday_validate_format b \<longleftrightarrow>
     (\<exists>d m y. fvalue b = d @ ''.'' @ m @ ''.'' @ y
        \<and> day_text d \<and> month_text m \<and> year_text y
        \<and> valid_date (int_of_digits y, int_of_digits m, int_of_digits (py_strip d)))"
proof
  assume "Birthday_validate_format b"
  then obtain dt where "strptime (fvalue b) = Inr dt"
    by (auto simp: Birthday_validate_format_def split: sum.splits error.splits)
  from strptime_sound[OF this]
  show "\<exists>d m y. fvalue b = d @ ''.'' @ m @ ''.'' @ y
        \<and> day_text d \<and> month_text m \<and> year_text y
        \<and> valid_date (int_of_digits y, int_of_digits m, int_of_digits (py_strip d))"
    by auto
next
  assume "\<exists>d m y. fvalue b = d @ ''.'' @ m @ ''.'' @ y
        \<and> day_text d \<and> month_text m \<and> year_text y
        \<and> valid_date (int_of_digits y, int_of_digits m, int_of_digits (py_strip d))"
  then obtain d m y where "fvalue b = d @ ''.'' @ m @ ''.'' @ y"
    "day_text d" "month_text m" "year_text y"
    "valid_date (int_of_digits y, int_of_digits m, int_of_digits (py_strip d))"
    by blast
  with strptime_complete[of d m y] show "Birthday_validate_format b"
    by (simp add: Birthday_validate_format_def)
qed

theorem birthday_validate_format_iff_witness:
  "Birthday_validate_format (Birthday 0 ''29.02.2000'')
   \<and> \<not> Birthday_validate_format (Birthday 0 ''31.04.2000'')"
proof -
  have "fvalue (Birthday 0 ''29.02.2000'') = ''29'' @ ''.'' @ ''02'' @ ''.'' @ ''2000''
      \<and> day_text ''29'' \<and> month_text ''02'' \<and> year_text ''2000''
      \<and> valid_date (int_of_digits ''2000'', int_of_digits ''02'', int_of_digits (py_strip ''29''))"
    by code_simp
  then have "Birthday_validate_format (Birthday 0 ''29.02.2000'')"
    using birthday_validate_format_iff [of "Birthday 0 ''29.02.2000''"] by blast
  moreover have "\<not> Birthday_validate_format (Birthday 0 ''31.04.2000'')"
    by code_simp
  ultimately show ?thesis by simp
qed

text \<open>
  The claim as written fails: the string 5.8.1990 has no leading zeros and the
  validation accepts it.
\<close>

theorem birthday_without_leading_zeros_counterexample:
  "Birthday_validate_format (Birthday 0 ''5.8.1990'')"
  by code_simp

section \<open>Failing calls\<close>

lemma record_ops_fail:
  "isl (fst (add_phone p r)) \<longrightarrow> snd (add_phone p r) = r"
  "isl (fst (add_birthday b r)) \<longrightarrow> snd (add_birthday b r) = r"
  "isl (fst (remove_phone p r)) \<longrightarrow> snd (remove_phone p r) = r"
  "isl (fst (edit_phone p q r)) \<longrightarrow> snd (edit_phone p q r) = r"
  "isl (fst (find_phone p r)) \<longrightarrow> snd (find_phone p r) = r"
  by (simp_all add: add_phone_def add_birthday_def remove_phone_def edit_phone_def find_phone_def)

lemma directory_ops_fail:
  "isl (fst (add_record x data)) \<longrightarrow> snd (add_record x data) = data"
  "isl (fst (delete nm data)) \<longrightarrow> snd (delete nm data) = data"
  "isl (fst (find nm data)) \<longrightarrow> snd (find nm data) = data"
  by (simp_all add: add_record_def delete_def find_def Let_def split: pyobj.splits option.splits)

lemma find_cases:
  "find nm data = (Inl (ValueError ''Record not found in the address book.''), data)
   \<or> (\<exists>r. map_of data (py_lower nm) = Some r \<and> find nm data = (Inr r, data))"
  by (auto simp: find_def Let_def split: option.splits)

lemma add_contact_body_fail:
  "isl (fst (add_contact_body args s)) \<longrightarrow> book (snd (add_contact_body args s)) = book s"
  by (auto simp: add_contact_body_def Let_def add_phone_def add_record_def split: prod.splits sum.splits)

lemma change_contact_body_fail:
  "isl (fst (change_contact_body args s)) \<longrightarrow> book (snd (change_contact_body args s)) = book s"
  using find_cases[of "args ! 0" "book s"]
  by (auto simp: change_contact_body_def Let_def edit_phone_def update_same split: prod.splits sum.splits)

lemma show_phone_body_same:
  "book (snd (show_phone_body args s)) = book s"
  using find_cases[of "args ! 0" "book s"]
  by (auto simp: show_phone_body_def Let_def)

lemma add_birthday_body_fail:
  "isl (fst (add_birthday_body args s)) \<longrightarrow> book (snd (add_birthday_body args s)) = book s"
  using find_cases[of "args ! 0" "book s"]
  by (auto simp: add_birthday_body_def Let_def add_birthday_def update_same split: prod.splits sum.splits)

lemma show_birthday_body_same:
  "book (snd (show_birthday_body args s)) = book s"
  using find_cases[of "args ! 0" "book s"]
  by (auto simp: show_birthday_body_def Let_def split: option.splits)

lemma input_error_cases:
  "(\<exists>v. fst (func args s) = Inr v \<and> fst (input_error func args s) = v)
   \<or> isl (fst (func args s))"
  by (cases "func args s") (auto simp: input_error_def split: sum.splits error.splits)

lemma input_error_state: "snd (input_error func args s) = snd (func args s)"
  by (cases "func args s") (auto simp: input_error_def split: sum.splits error.splits)

lemma add_contact_body_value:
  "fst (add_contact_body args s) = Inr v \<Longrightarrow> v = StrObj ''Contact added.''"
  by (auto simp: add_contact_body_def Let_def add_phone_def add_record_def split: if_splits)

lemma change_contact_body_value:
  "fst (change_contact_body args s) = Inr v \<Longrightarrow> v = StrObj ''Contact updated.''"
  using find_cases[of "args ! 0" "book s"]
  by (auto simp: change_contact_body_def Let_def edit_phone_def split: if_splits)

lemma add_birthday_body_value:
  "fst (add_birthday_body args s) = Inr v \<Longrightarrow> v = StrObj ''Birthday added to the contact.''"
  using find_cases[of "args ! 0" "book s"]
  by (auto simp: add_birthday_body_def Let_def add_birthday_def split: if_splits)

lemma add_contact_fail:
  "error_message (fst (add_contact args s)) \<longrightarrow> book (snd (add_contact args s)) = book s"
  using input_error_cases[of add_contact_body args s] add_contact_body_fail[of args s]
    add_contact_body_value[of args s]
  by (auto simp: add_contact_def input_error_state error_message_def)

lemma change_contact_fail:
  "error_message (fst (change_contact args s)) \<longrightarrow> book (snd (change_contact args s)) = book s"
  using input_error_cases[of change_contact_body args s] change_contact_body_fail[of args s]
    change_contact_body_value[of args s]
  by (auto simp: change_contact_def input_error_state error_message_def)

lemma add_birthday_handler_fail:
  "error_message (fst (add_birthday_handler args s)) \<longrightarrow>
     book (snd (add_birthday_handler args s)) = book s"
  using input_error_cases[of add_birthday_body args s] add_birthday_body_fail[of args s]
    add_birthday_body_value[of args s]
  by (auto simp: add_birthday_handler_def input_error_state error_message_def)

lemma show_phone_fail:
  "error_message (fst (show_phone args s)) \<longrightarrow> book (snd (show_phone args s)) = book s"
  by (simp add: show_phone_def input_error_state show_phone_body_same)

lemma show_birthday_fail:
  "error_message (fst (show_birthday args s)) \<longrightarrow> book (snd (show_birthday args s)) = book s"
  by (simp add: show_birthday_def input_error_state show_birthday_body_same)

text \<open>
  Claim C9. A call that fails leaves the state as it was: a \<open>Record\<close> method that
  raises leaves the record unchanged, an \<open>AddressBook\<close> method that raises leaves
  the entries unchanged, and a handler that returns one of the error messages of
  \<open>input_error\<close> leaves the address book unchanged.
\<close>

theorem failed_call_keeps_state:
  "(isl (fst (add_phone p r)) \<longrightarrow> snd (add_phone p r) = r)
 \<and> (isl (fst (add_birthday b r)) \<longrightarrow> snd (add_birthday b r) = r)
 \<and> (isl (fst (remove_phone p r)) \<longrightarrow> snd (remove_phone p r) = r)
 \<and> (isl (fst (edit_phone p q r)) \<longrightarrow> snd (edit_phone p q r) = r)
 \<and> (isl (fst (find_phone p r)) \<longrightarrow> snd (find_phone p r) = r)
 \<and> (isl (fst (add_record x data)) \<longrightarrow> snd (add_record x data) = data)
 \<and> (isl (fst (delete nm data)) \<longrightarrow> snd (delete nm data) = data)
 \<and> (isl (fst (find nm data)) \<longrightarrow> snd (find nm data) = data)
 \<and> (error_message (fst (add_contact args s)) \<longrightarrow> book (snd (add_contact args s)) = book s)
 \<and> (error_message (fst (change_contact args s)) \<longrightarrow>
       book (snd (change_contact args s)) = book s)
 \<and> (error_message (fst (show_phone args s)) \<longrightarrow> book (snd (show_phone args s)) = book s)
 \<and> (error_message (fst (add_birthday_handler args s)) \<longrightarrow>
       book (snd (add_birthday_handler args s)) = book s)
 \<and> (error_message (fst (show_birthday args s)) \<longrightarrow>
       book (snd (show_birthday args s)) = book s)"
  by (intro conjI record_ops_fail directory_ops_fail add_contact_fail change_contact_fail
      show_phone_fail add_birthday_handler_fail show_birthday_fail)

theorem failed_call_keeps_state_witness:
  "isl (fst (add_phone (Phone 7 ''12'') john_record))
 \<and> snd (add_phone (Phone 7 ''12'') john_record) = john_record
 \<and> isl (fst (add_birthday (Birthday 8 ''31.04.2000'') john_record))
 \<and> snd (add_birthday (Birthday 8 ''31.04.2000'') john_record) = john_record
 \<and> isl (fst (remove_phone (Phone 7 ''12'') john_record))
 \<and> snd (remove_phone (Phone 7 ''12'') john_record) = john_record
 \<and> isl (fst (edit_phone (Phone 7 ''12'') (Phone 9 ''0987654321'') john_record))
 \<and> snd (edit_phone (Phone 7 ''12'') (Phone 9 ''0987654321'') john_record) = john_record
 \<and> isl (fst (find_phone (Phone 7 ''12'') john_record))
 \<and> snd (find_phone (Phone 7 ''12'') john_record) = john_record
 \<and> isl (fst (add_record (StrObj ''Ann'') (book john_session)))
 \<and> snd (add_record (StrObj ''Ann'') (book john_session)) = book john_session
 \<and> isl (fst (delete ''Ann'' (book john_session)))
 \<and> snd (delete ''Ann'' (book john_session)) = book john_session
 \<and> isl (fst (find ''Ann'' (book john_session)))
 \<and> snd (find ''Ann'' (book john_session)) = book john_session
 \<and> error_message (fst (add_contact [''Ann'', ''12''] john_session))
 \<and> book (snd (add_contact [''Ann'', ''12''] john_session)) = book john_session
 \<and> error_message (fst (change_contact [''Ann'', ''12''] john_session))
 \<and> book (snd (change_contact [''Ann'', ''12''] john_session)) = book john_session
 \<and> error_message (fst (show_phone [''Ann'', ''12''] john_session))
 \<and> book (snd (show_phone [''Ann'', ''12''] john_session)) = book john_session
 \<and> error_message (fst (add_birthday_handler [''Ann'', ''12''] john_session))
 \<and> book (snd (add_birthday_handler [''Ann'', ''12''] john_session)) = book john_session
 \<and> error_message (fst (show_birthday [''Ann'', ''12''] john_session))
 \<and> book (snd (show_birthday [''Ann'', ''12''] john_session)) = book john_session"
proof -
  have h:
    "isl (fst (add_phone (Phone 7 ''12'') john_record))
   \<and> isl (fst (add_birthday (Birthday 8 ''31.04.2000'') john_record))
   \<and> isl (fst (remove_phone (Phone 7 ''12'') john_record))
   \<and> isl (fst (edit_phone (Phone 7 ''12'') (Phone 9 ''0987654321'') john_record))
   \<and> isl (fst (find_phone (Phone 7 ''12'') john_record))
   \<and> isl (fst (add_record (StrObj ''Ann'') (book john_session)))
   \<and> isl (fst (delete ''Ann'' (book john_session)))
   \<and> isl (fst (find ''Ann'' (book john_session)))
   \<and> error_message (fst (add_contact [''Ann'', ''12''] john_session))
   \<and> error_message (fst (change_contact [''Ann'', ''12''] john_session))
   \<and> error_message (fst (show_phone [''Ann'', ''12''] john_session))
   \<and> error_message (fst (add_birthday_handler [''Ann'', ''12''] john_session))
   \<and> error_message (fst (show_birthday [''Ann'', ''12''] john_session))"
    by code_simp
  from h failed_call_keeps_state [of "Phone 7 ''12''" john_record "Birthday 8 ''31.04.2000''"
      "Phone 9 ''0987654321''" "StrObj ''Ann''" "book john_session" "''Ann''"
      "[''Ann'', ''12'']" john_session]
  show ?thesis by blast
qed

section \<open>Adding a contact twice\<close>

text \<open>
  Claim C10. When the book has an entry under the lowercased name and the phone is
  valid, the \<open>add\<close> handler answers \<open>Contact added.\<close> and the entry now holds a new
  record with that one phone and no birthday: the old record, with its phones and its
  birthday, is gone. The keys of the book and every other entry are as before.
\<close>

theorem add_contact_replaces_entry:
  assumes "map_of (book s) (py_lower nm) = Some old"
    and "Phone_validate_format (Phone i phone)"
  shows "fst (add_contact [nm, phone] s) = StrObj ''Contact added.''
       \<and> fst (find nm (book (snd (add_contact [nm, phone] s))))
           = Inr \<lparr>rid = next_oid s, name = Name (next_oid s + 1) nm,
                  phones = [Phone (next_oid s + 2) phone], birthday = None\<rparr>
       \<and> map fst (book (snd (add_contact [nm, phone] s))) = map fst (book s)
       \<and> (\<forall>k. k \<noteq> py_lower nm \<longrightarrow>
             map_of (book (snd (add_contact [nm, phone] s))) k = map_of (book s) k)"
proof -
  from assms(2) have v: "Phone_validate_format (Phone (next_oid s + 2) phone)"
    by (simp add: Phone_validate_format_def Phone_def)
  from assms(1) have k: "py_lower nm \<in> fst ` set (book s)"
    by (metis map_of_eq_None_iff option.distinct(1))
  have eq: "add_contact [nm, phone] s =
           (StrObj ''Contact added.'',
            \<lparr>book = AList.update (py_lower nm)
                      \<lparr>rid = next_oid s, name = Name (next_oid s + 1) nm,
                       phones = [Phone (next_oid s + 2) phone], birthday = None\<rparr> (book s),
             next_oid = next_oid s + 3\<rparr>)"
    using v
    by (simp add: add_contact_def input_error_def add_contact_body_def Let_def add_phone_def
        add_record_def Record_def Phone_def Name_def)
  show ?thesis
    using k by (simp add: eq find_def Name_def update_conv' update_keys)
qed

theorem add_contact_replaces_entry_witness:
  "map_of (book (\<lparr>book = example_book, next_oid = 10\<rparr>)) (py_lower ''JOHN'')
      = Some (john_record\<lparr>birthday := Some (Birthday 3 ''15.08.1990'')\<rparr>)
   \<and> Phone_validate_format (Phone 0 ''0987654321'')
   \<and> fst (find ''JOHN'' (book (snd (add_contact [''JOHN'', ''0987654321'']
            \<lparr>book = example_book, next_oid = 10\<rparr>))))
       = Inr \<lparr>rid = 10, name = Name 11 ''JOHN'', phones = [Phone 12 ''0987654321''],
              birthday = None\<rparr>"
proof -
  have h1: "map_of (book (\<lparr>book = example_book, next_oid = 10\<rparr>)) (py_lower ''JOHN'')
      = Some (john_record\<lparr>birthday := Some (Birthday 3 ''15.08.1990'')\<rparr>)"
    by code_simp
  have h2: "Phone_validate_format (Phone 0 ''0987654321'')"
    by code_simp
  from add_contact_replaces_entry [OF h1 h2] h1 h2 show ?thesis by simp
qed

section \<open>\<open>AddressBook.get_birthdays_per_week\<close>\<close>

lemma valid_parses: "Birthday_validate_format b \<Longrightarrow> \<exists>dt. strptime (fvalue b) = Inr dt"
  by (auto simp: Birthday_validate_format_def split: sum.splits error.splits)

lemma birthdays_loop_eq:
  "\<forall>r \<in> set rs. \<forall>b. birthday r = Some b \<longrightarrow> Birthday_validate_format b \<Longrightarrow>
   birthdays_loop nw acc rs = Inr (acc @ map record_str (filter (due nw) rs))"
proof (induction rs arbitrary: acc)
  case Nil
  then show ?case by simp
next
  case (Cons r rs)
  show ?case
  proof (cases "birthday r")
    case None
    with Cons show ?thesis by (simp add: due_def)
  next
    case (Some b)
    with Cons.prems have "Birthday_validate_format b" by simp
    then obtain dt where "strptime (fvalue b) = Inr dt" using valid_parses by blast
    with Some Cons show ?thesis by (simp add: due_def)
  qed
qed

text \<open>
  Every state that \<open>main\<close> reaches stores valid birthdays only: \<open>add_birthday\<close> is the
  one place where a birthday is stored, and it validates.
\<close>

lemma birthdays_valid_iff: "birthdays_valid data = (\<forall>(k, r) \<in> set data. birthday_ok r)"
  by (auto simp: birthdays_valid_def birthday_ok_def list_all_iff)

lemma birthdays_valid_update:
  "birthdays_valid data \<Longrightarrow> birthday_ok r \<Longrightarrow> birthdays_valid (AList.update k r data)"
  using set_update_subset[of k r data] by (auto simp: birthdays_valid_iff)

lemma birthdays_valid_lookup:
  "birthdays_valid data \<Longrightarrow> map_of data k = Some r \<Longrightarrow> birthday_ok r"
  by (auto simp: birthdays_valid_iff dest: map_of_SomeD)

lemma add_contact_valid:
  "birthdays_valid (book s) \<Longrightarrow> birthdays_valid (book (snd (add_contact args s)))"
  by (auto simp: add_contact_def input_error_state add_contact_body_def Let_def add_phone_def
      add_record_def Record_def birthday_ok_def intro!: birthdays_valid_update)

lemma edit_phone_birthday: "birthday (snd (edit_phone p q r)) = birthday r"
  by (simp add: edit_phone_def Let_def)

lemma add_birthday_ok: "birthday_ok r \<Longrightarrow> birthday_ok (snd (add_birthday b r))"
  by (simp add: add_birthday_def birthday_ok_def)

lemma change_contact_valid:
  assumes "birthdays_valid (book s)"
  shows "birthdays_valid (book (snd (change_contact args s)))"
proof -
  consider "find (args ! 0) (book s) = (Inl (ValueError ''Record not found in the address book.''), book s)"
    | r where "map_of (book s) (py_lower (args ! 0)) = Some r" "find (args ! 0) (book s) = (Inr r, book s)"
    using find_cases[of "args ! 0" "book s"] by blast
  then show ?thesis
  proof cases
    case 1
    with assms show ?thesis
      by (simp add: change_contact_def input_error_state change_contact_body_def)
  next
    case 2
    from birthdays_valid_lookup[OF assms 2(1)] have "birthday_ok r" .
    then have ok: "birthday_ok (snd (edit_phone p q r))" for p q
      by (simp add: birthday_ok_def edit_phone_birthday)
    obtain res r' where e:
      "edit_phone (Phone (next_oid s) (args ! 1)) (Phone (next_oid s + 1) (args ! 1)) r = (res, r')"
      by (cases "edit_phone (Phone (next_oid s) (args ! 1)) (Phone (next_oid s + 1) (args ! 1)) r")
    with ok[of "Phone (next_oid s) (args ! 1)" "Phone (next_oid s + 1) (args ! 1)"]
    have "birthday_ok r'" by simp
    from birthdays_valid_update[OF assms this] 2(2) e assms show ?thesis
      by (simp add: change_contact_def input_error_state change_contact_body_def Let_def
          split: sum.splits)
  qed
qed

lemma add_birthday_handler_valid:
  assumes "birthdays_valid (book s)"
  shows "birthdays_valid (book (snd (add_birthday_handler args s)))"
proof -
  consider "find (args ! 0) (book s) = (Inl (ValueError ''Record not found in the address book.''), book s)"
    | r where "map_of (book s) (py_lower (args ! 0)) = Some r" "find (args ! 0) (book s) = (Inr r, book s)"
    using find_cases[of "args ! 0" "book s"] by blast
  then show ?thesis
  proof cases
    case 1
    with assms show ?thesis
      by (simp add: add_birthday_handler_def input_error_state add_birthday_body_def)
  next
    case 2
    from birthdays_valid_lookup[OF assms 2(1)] have "birthday_ok r" .
    then have ok: "birthday_ok (snd (add_birthday b r))" for b
      by (rule add_birthday_ok)
    obtain res r' where e: "add_birthday (Birthday (next_oid s) (args ! 1)) r = (res, r')"
      by (cases "add_birthday (Birthday (next_oid s) (args ! 1)) r")
    with ok[of "Birthday (next_oid s) (args ! 1)"] have "birthday_ok r'" by simp
    from birthdays_valid_update[OF assms this] 2(2) e assms show ?thesis
      by (simp add: add_birthday_handler_def input_error_state add_birthday_body_def Let_def
          split: sum.splits)
  qed
qed

lemma show_phone_book: "book (snd (show_phone args s)) = book s"
  by (simp add: show_phone_def input_error_state show_phone_body_same)

lemma show_birthday_book: "book (snd (show_birthday args s)) = book s"
  by (simp add: show_birthday_def input_error_state show_birthday_body_same)

lemma main_step_valid:
  assumes "birthdays_valid (book s)"
  shows "birthdays_valid (book (fst (snd (main_step today l s))))"
proof (cases "parse_input l")
  case (Inl e)
  with assms show ?thesis by (simp add: main_step_def)
next
  case (Inr ca)
  obtain command args where ca: "ca = (command, args)" by (cases ca)
  have a: "birthdays_valid (book (snd (add_contact args s)))"
    and c: "birthdays_valid (book (snd (change_contact args s)))"
    and b: "birthdays_valid (book (snd (add_birthday_handler args s)))"
    using assms add_contact_valid change_contact_valid add_birthday_handler_valid by blast+
  have p: "birthdays_valid (book (snd (show_phone args s)))"
    and q: "birthdays_valid (book (snd (show_birthday args s)))"
    using assms by (simp_all add: show_phone_book show_birthday_book)
  show ?thesis
    unfolding main_step_def Inr ca
    using assms a b c p q
    by (simp add: case_prod_beta split: sum.splits)
qed

lemma main_loop_valid:
  "birthdays_valid (book s) \<Longrightarrow> birthdays_valid (book (snd (main_loop today ls s)))"
proof (induction ls arbitrary: s)
  case Nil
  then show ?case by simp
next
  case (Cons l ls)
  obtain out s' go_on where st: "main_step today l s = (out, s', go_on)"
    by (cases "main_step today l s") auto
  from main_step_valid[OF Cons.prems, of today l] st have v: "birthdays_valid (book s')" by simp
  from Cons.IH[OF v] v st show ?case by (simp add: case_prod_beta)
qed

lemma main_valid: "birthdays_valid (book (snd (main today ls)))"
  using main_loop_valid[of "\<lparr>book = [], next_oid = 0\<rparr>" today ls]
  by (simp add: main_def birthdays_valid_def case_prod_beta)

text \<open>
  Claim C4. When today plus seven days is a date and every stored birthday is a valid
  one, the query returns the summaries of exactly the records that have a birthday whose
  full date, with its year, is not later than today plus seven days, in the order of the
  entries of the book. Records without a birthday are not listed.
\<close>

theorem get_birthdays_per_week_exact:
  assumes "plus_week today = Inr next_week" and "birthdays_valid data"
  shows "get_birthdays_per_week today data
           = Inr (map record_str (filter (due next_week) (map snd data)))"
proof -
  have "\<forall>r \<in> set (map snd data). \<forall>b. birthday r = Some b \<longrightarrow> Birthday_validate_format b"
    using assms(2) by (fastforce simp: birthdays_valid_def list_all_iff)
  from birthdays_loop_eq[OF this] assms(1) show ?thesis
    by (simp add: get_birthdays_per_week_def)
qed

theorem get_birthdays_per_week_exact_witness:
  "plus_week (2026, 11, 4) = Inr (2026, 11, 11) \<and> birthdays_valid example_book
   \<and> get_birthdays_per_week (2026, 11, 4) example_book
       = Inr [''Contact name: John, phones: 1234567890, Birthday: 15.08.1990'']"
proof -
  have h1: "plus_week (2026, 11, 4) = Inr (2026, 11, 11)" by code_simp
  have h2: "birthdays_valid example_book" by code_simp
  have "map record_str (filter (due (2026, 11, 11)) (map snd example_book))
          = [''Contact name: John, phones: 1234567890, Birthday: 15.08.1990'']"
    by code_simp
  with get_birthdays_per_week_exact [OF h1 h2] h1 h2 show ?thesis by simp
qed

end
